theory Spec2Isabelle
  imports Complex_Main
begin

section \<open>Python values, errors and arithmetic\<close>

text \<open>
  The two programs, \<^verbatim>\<open>battery_runtime_app.py\<close> (the generalized variant: lithium metal
  and alkaline) and \<^verbatim>\<open>lithium_battery_runtime_app.py\<close> (the lithium-only variant), each
  define a class \<^verbatim>\<open>Battery\<close>. Both are embedded below, method by method.

  Numbers: a Python \<^verbatim>\<open>int\<close> is an \<open>int\<close>; a Python \<^verbatim>\<open>float\<close> (and a numpy float read
  from the spreadsheet) is identified with the real number it denotes, so rounding error,
  infinities and NaN are outside the model. The type of a value is kept where the code
  inspects it (the \<^verbatim>\<open>isinstance\<close> tests of the setters); \<^verbatim>\<open>bool\<close> is a subclass of
  \<^verbatim>\<open>int\<close> in Python and is treated so.
\<close>

datatype pyval = PNone | PBool bool | PInt int | PFloat real | PStr string

datatype py_error = AttributeError | TypeError | KeyError | ZeroDivisionError

text \<open>\<^verbatim>\<open>isinstance(value, int)\<close> and \<^verbatim>\<open>isinstance(value, float)\<close>.\<close>

fun isinstance_int :: "pyval \<Rightarrow> bool" where
  "isinstance_int (PInt i) = True"
| "isinstance_int (PBool b) = True"
| "isinstance_int v = False"

fun isinstance_float :: "pyval \<Rightarrow> bool" where
  "isinstance_float (PFloat r) = True"
| "isinstance_float v = False"

text \<open>The integer behind an instance of \<^verbatim>\<open>int\<close>, and the number behind a numeric value.\<close>

fun int_value :: "pyval \<Rightarrow> int" where
  "int_value (PInt i) = i"
| "int_value (PBool b) = (if b then 1 else 0)"
| "int_value v = 0"

fun num_value :: "pyval \<Rightarrow> real" where
  "num_value (PFloat r) = r"
| "num_value v = of_int (int_value v)"

text \<open>
  Sequencing of computations that may raise: the first error is the result, as an
  exception that nobody catches would be.
\<close>

definition and_then :: "py_error + 'a \<Rightarrow> ('a \<Rightarrow> py_error + 'b) \<Rightarrow> py_error + 'b" where
  "and_then m f = (case m of Inl e \<Rightarrow> Inl e | Inr x \<Rightarrow> f x)"

text \<open>
  Reading an attribute that was never assigned raises \<^verbatim>\<open>AttributeError\<close>; arithmetic on
  \<^verbatim>\<open>None\<close> raises \<^verbatim>\<open>TypeError\<close>.
\<close>

definition attribute :: "'a option \<Rightarrow> py_error + 'a" where
  "attribute a = (case a of None \<Rightarrow> Inl AttributeError | Some v \<Rightarrow> Inr v)"

definition operand :: "'a option \<Rightarrow> py_error + 'a" where
  "operand a = (case a of None \<Rightarrow> Inl TypeError | Some v \<Rightarrow> Inr v)"

text \<open>
  \<^verbatim>\<open>round(x, ndigits)\<close>: the nearest multiple of \<open>10\<^sup>-\<^sup>n\<close>, a tie going to the even
  neighbour.
\<close>

definition round_half_even :: "real \<Rightarrow> int" where
  "round_half_even x =
     (let f = \<lfloor>x\<rfloor>; d = x - of_int f
      in if d < 1/2 then f else if 1/2 < d then f + 1 else if even f then f else f + 1)"

definition py_round :: "real \<Rightarrow> nat \<Rightarrow> real" where
  "py_round x n = of_int (round_half_even (x * 10 ^ n)) / 10 ^ n"

section \<open>The generalized variant: \<^verbatim>\<open>battery_runtime_app.py\<close>\<close>

subsection \<open>The object\<close>

text \<open>
  The six settable attributes are created by their setters only, so each is optional:
  \<open>None\<close> is an attribute that does not exist. The derived attributes are always created by
  \<^verbatim>\<open>__init__\<close>; where their type is optional, \<open>None\<close> is Python's \<^verbatim>\<open>None\<close>. The leading
  underscore of the Python names is written \<open>u_\<close>.
\<close>

record battery =
  u_battery_type :: "string option"
  u_battery_capacity :: "int option"
  u_operating_temp :: "real option"
  u_load_current :: "real option"
  u_load_duration_per_day :: "real option"
  u_sleep_current :: "real option"
  u_sleep_duration_per_day :: "real option"
  u_average_current_draw :: real
  u_self_discharge_rate :: real
  u_max_shelf_life :: int
  u_min_operating_temp :: int
  u_max_operating_temp :: int
  u_temperature_factor :: "real option"
  u_effective_battery_capacity :: "real option"
  u_battery_runtime :: "real option"
  u_current_discharge_mode :: "string option"
  u_low_current_discharge :: int
  u_medium_current_discharge :: int
  u_high_current_discharge :: int

subsection \<open>Property setters\<close>

definition set_battery_type :: "pyval \<Rightarrow> battery \<Rightarrow> battery" where
  "set_battery_type v b =
     (if v \<in> set [PStr ''Lithium Metal'', PStr ''Alkaline'']
      then b\<lparr>u_battery_type := Some (case v of PStr s \<Rightarrow> s | _ \<Rightarrow> [])\<rparr> else b)"

definition set_battery_capacity :: "pyval \<Rightarrow> battery \<Rightarrow> battery" where
  "set_battery_capacity v b =
     (if isinstance_int v \<and> int_value v \<ge> 0
      then b\<lparr>u_battery_capacity := Some (int_value v)\<rparr> else b)"

definition set_operating_temp :: "pyval \<Rightarrow> battery \<Rightarrow> battery" where
  "set_operating_temp v b =
     (if isinstance_int v \<or> isinstance_float v
      then b\<lparr>u_operating_temp := Some (num_value v)\<rparr> else b)"

definition set_load_current :: "pyval \<Rightarrow> battery \<Rightarrow> battery" where
  "set_load_current v b =
     (if (isinstance_int v \<or> isinstance_float v) \<and> num_value v \<ge> 0
      then b\<lparr>u_load_current := Some (num_value v)\<rparr> else b)"

definition set_load_duration_per_day :: "pyval \<Rightarrow> battery \<Rightarrow> battery" where
  "set_load_duration_per_day v b =
     (if isinstance_int v \<or> isinstance_float v
      then (if num_value v \<ge> 0 \<and> num_value v \<le> 86400
            then b\<lparr>u_load_duration_per_day := Some (num_value v)\<rparr> else b)
      else b)"

definition set_sleep_current :: "pyval \<Rightarrow> battery \<Rightarrow> battery" where
  "set_sleep_current v b =
     (if (isinstance_int v \<or> isinstance_float v) \<and> num_value v \<ge> 0
      then b\<lparr>u_sleep_current := Some (num_value v)\<rparr> else b)"

subsection \<open>Property getters\<close>

definition battery_type :: "battery \<Rightarrow> py_error + string" where
  "battery_type b = attribute (u_battery_type b)"

definition battery_capacity :: "battery \<Rightarrow> py_error + int" where
  "battery_capacity b = attribute (u_battery_capacity b)"

definition operating_temp :: "battery \<Rightarrow> py_error + real" where
  "operating_temp b = attribute (u_operating_temp b)"

definition load_current :: "battery \<Rightarrow> py_error + real" where
  "load_current b = attribute (u_load_current b)"

definition load_duration_per_day :: "battery \<Rightarrow> py_error + real" where
  "load_duration_per_day b = attribute (u_load_duration_per_day b)"

definition sleep_current :: "battery \<Rightarrow> py_error + real" where
  "sleep_current b = attribute (u_sleep_current b)"

subsection \<open>The constructor\<close>

text \<open>
  \<^verbatim>\<open>__init__\<close> runs the six setters on an object without attributes and then creates
  the derived attributes. The setters touch no derived attribute, so the record of the
  fresh object already holds the derived attributes' first values.
\<close>

definition fresh :: battery where
  "fresh = \<lparr>u_battery_type = None, u_battery_capacity = None, u_operating_temp = None,
     u_load_current = None, u_load_duration_per_day = None, u_sleep_current = None,
     u_sleep_duration_per_day = None, u_average_current_draw = 0,
     u_self_discharge_rate = 1/100, u_max_shelf_life = 25,
     u_min_operating_temp = - 40, u_max_operating_temp = 60,
     u_temperature_factor = None, u_effective_battery_capacity = None,
     u_battery_runtime = None, u_current_discharge_mode = None,
     u_low_current_discharge = 25, u_medium_current_discharge = 250,
     u_high_current_discharge = 1000\<rparr>"

definition init :: "pyval \<Rightarrow> pyval \<Rightarrow> pyval \<Rightarrow> pyval \<Rightarrow> pyval \<Rightarrow> pyval \<Rightarrow> battery" where
  "init ty cap temp lc ld sc =
     set_sleep_current sc (set_load_duration_per_day ld (set_load_current lc
       (set_operating_temp temp (set_battery_capacity cap (set_battery_type ty fresh)))))"

subsection \<open>\<^verbatim>\<open>battery_details\<close>\<close>

text \<open>
  The dictionary that \<^verbatim>\<open>battery_details\<close> returns, keys in the order of the source. The
  degree sign of two keys is written \<open>deg\<close>. Building it reads all six settable
  properties, so it raises \<^verbatim>\<open>AttributeError\<close> when one of them was never created.
\<close>

datatype detail = DNone | DInt int | DReal real | DStr string | DDict "(string \<times> detail) list"

definition opt_real :: "real option \<Rightarrow> detail" where
  "opt_real a = (case a of None \<Rightarrow> DNone | Some r \<Rightarrow> DReal r)"

definition opt_str :: "string option \<Rightarrow> detail" where
  "opt_str a = (case a of None \<Rightarrow> DNone | Some s \<Rightarrow> DStr s)"

definition battery_details :: "battery \<Rightarrow> py_error + detail" where
  "battery_details b =
     and_then (battery_type b) (\<lambda>ty.
     and_then (battery_capacity b) (\<lambda>cap.
     and_then (operating_temp b) (\<lambda>temp.
     and_then (load_current b) (\<lambda>lc.
     and_then (load_duration_per_day b) (\<lambda>ld.
     and_then (sleep_current b) (\<lambda>sc.
     Inr (DDict
       [(''Battery Type'', DStr ty),
        (''Battery Capacity (mAh)'', DInt cap),
        (''Current Operating Temperature (degC)'', DReal temp),
        (''Load Current (mA)'', DReal lc),
        (''Load Duration Per Day (s)'', DReal ld),
        (''Sleep Current (mA)'', DReal sc),
        (''Sleep Duration Per Day (s)'', opt_real (u_sleep_duration_per_day b)),
        (''Average Current Draw (mA)'', DReal (u_average_current_draw b)),
        (''Annual Self-discharge Rate'', DReal (u_self_discharge_rate b)),
        (''Max Shelf Life (Years)'', DInt (u_max_shelf_life b)),
        (''Operating Temperature Range (degC)'',
           DDict [(''Min'', DInt (u_min_operating_temp b)),
                  (''Max'', DInt (u_max_operating_temp b))]),
        (''Temperature Factor'', opt_real (u_temperature_factor b)),
        (''Effective Battery Capacity (mAh)'', opt_real (u_effective_battery_capacity b)),
        (''Battery Runtime (Days)'', opt_real (u_battery_runtime b)),
        (''Current Discharge Mode'', opt_str (u_current_discharge_mode b)),
        (''Constant Current Discharge Limits (mA)'',
           DDict [(''Low'', DInt (u_low_current_discharge b)),
                  (''Medium'', DInt (u_medium_current_discharge b)),
                  (''High'', DInt (u_high_current_discharge b))])])))))))"

text \<open>\<^verbatim>\<open>d[key]\<close> on a dictionary; a key that is \<^verbatim>\<open>None\<close> is in no dictionary here.\<close>

definition getitem :: "detail \<Rightarrow> string option \<Rightarrow> py_error + detail" where
  "getitem d key =
     (case d of
        DDict kvs \<Rightarrow>
          (case key of
             None \<Rightarrow> Inl KeyError
           | Some k \<Rightarrow> (case map_of kvs k of None \<Rightarrow> Inl KeyError | Some v \<Rightarrow> Inr v))
      | _ \<Rightarrow> Inl TypeError)"

subsection \<open>\<^verbatim>\<open>calculate_temperature_factor\<close>\<close>

text \<open>
  The spreadsheet is not part of the sources, so it is a parameter: a workbook holds the
  two sheets the code names, each a list of rows (constant current discharge, operating
  temperature, temperature factor) in the order of the file. The file is taken to exist,
  with these columns and a number in every cell.
\<close>

type_synonym sheet_row = "real \<times> real \<times> real"

record workbook =
  li_temperature_factor :: "sheet_row list"
  alkaline_temperature_factor :: "sheet_row list"

text \<open>
  The interpolation loop over \<^verbatim>\<open>range(df.shape[0]-1)\<close>, on the (temperature, factor)
  columns: the first adjacent pair of rows that brackets the temperature decides; without
  such a pair the function falls off its end and returns \<^verbatim>\<open>None\<close>.
\<close>

fun interpolate :: "real \<Rightarrow> (real \<times> real) list \<Rightarrow> real option" where
  "interpolate t ((x2, y2) # (x1, y1) # rest) =
     (if t < x2 \<and> t \<ge> x1 then Some (y1 + ((y2 - y1) / (x2 - x1)) * (t - x1))
      else interpolate t ((x1, y1) # rest))"
| "interpolate t rows = None"

text \<open>
  \<^verbatim>\<open>self.battery_details()["Constant Current Discharge Limits (mA)"][self.current_discharge_mode]\<close>,
  the value the first column is compared with.
\<close>

definition discharge_limit :: "battery \<Rightarrow> py_error + detail" where
  "discharge_limit b =
     and_then (battery_details b) (\<lambda>d.
     and_then (getitem d (Some ''Constant Current Discharge Limits (mA)'')) (\<lambda>limits.
     getitem limits (u_current_discharge_mode b)))"

text \<open>The rows of a sheet whose first column equals the limit, re-indexed from 0.\<close>

definition select_rows :: "detail \<Rightarrow> sheet_row list \<Rightarrow> (real \<times> real) list" where
  "select_rows limit sheet =
     map snd (filter (\<lambda>(c, T, f). (case limit of DInt l \<Rightarrow> c = of_int l
                                      | DReal r \<Rightarrow> c = r | _ \<Rightarrow> False)) sheet)"

definition calculate_temperature_factor :: "workbook \<Rightarrow> battery \<Rightarrow> py_error + real option" where
  "calculate_temperature_factor wb b =
     and_then (operating_temp b) (\<lambda>t.
     if t < of_int (u_min_operating_temp b) \<or> t > of_int (u_max_operating_temp b)
     then Inr (Some 0)
     else
       and_then (battery_type b) (\<lambda>ty.
       let sheet = (if ty = ''Alkaline'' then alkaline_temperature_factor wb
                    else li_temperature_factor wb) in
       and_then (discharge_limit b) (\<lambda>limit.
       let df = select_rows limit sheet in
       if t = of_int (u_max_operating_temp b)
       then (case df of [] \<Rightarrow> Inl KeyError | (T, f) # rest \<Rightarrow> Inr (Some f))
       else Inr (interpolate t df))))"

subsection \<open>\<^verbatim>\<open>calculate_runtime\<close>\<close>

text \<open>
  The three lines of arithmetic read, in this order, the load current, the load duration,
  the sleep current, the sleep duration and the effective capacity; the last two are
  \<^verbatim>\<open>None\<close> before the first update. A zero divisor is \<^verbatim>\<open>ZeroDivisionError\<close>, as for
  Python's own numbers. (A numpy operand read from the spreadsheet would give an infinity
  or NaN with a warning instead; in this variant a zero divisor needs a negative
  temperature factor, see \<open>calculate_runtime_returns\<close>.)
\<close>

definition total_daily_consumption :: "real \<Rightarrow> real \<Rightarrow> real \<Rightarrow> real \<Rightarrow> real \<Rightarrow> real \<Rightarrow> real" where
  "total_daily_consumption lc ld sc sd rate ec =
     (let daily_load_contribution = lc * (ld / 3600);
          daily_sleep_contribution = sc * (sd / 3600)
      in daily_load_contribution + daily_sleep_contribution + (rate * ec / 365))"

definition calculate_runtime :: "battery \<Rightarrow> py_error + real" where
  "calculate_runtime b =
     (if u_effective_battery_capacity b = Some 0 then Inr 0
      else
        and_then (load_current b) (\<lambda>lc.
        and_then (load_duration_per_day b) (\<lambda>ld.
        and_then (sleep_current b) (\<lambda>sc.
        and_then (operand (u_sleep_duration_per_day b)) (\<lambda>sd.
        and_then (operand (u_effective_battery_capacity b)) (\<lambda>ec.
        let total = total_daily_consumption lc ld sc sd (u_self_discharge_rate b) ec in
        if total = 0 then Inl ZeroDivisionError
        else
          let battery_runtime = ec / total;
              battery_runtime = (if battery_runtime / 365 \<ge> of_int (u_max_shelf_life b)
                                 then of_int (u_max_shelf_life b * 365) else battery_runtime)
          in Inr (py_round battery_runtime 2)))))))"

subsection \<open>\<^verbatim>\<open>update_current_discharge_mode\<close>\<close>

definition update_current_discharge_mode :: "battery \<Rightarrow> string" where
  "update_current_discharge_mode b =
     (if u_average_current_draw b \<le> of_int (u_low_current_discharge b) then ''Low''
      else if u_average_current_draw b \<le> of_int (u_medium_current_discharge b) then ''Medium''
      else ''High'')"

subsection \<open>\<^verbatim>\<open>update_battery_properties\<close>\<close>

text \<open>
  The method assigns attribute after attribute, so it is a chain of states. A step that
  raises ends the call: the result is then the error together with the object as the
  assignments before it left it. A call that reaches the last line returns 0.
\<close>

definition attempt ::
  "battery \<Rightarrow> py_error + 'a \<Rightarrow> ('a \<Rightarrow> (py_error + int) \<times> battery) \<Rightarrow> (py_error + int) \<times> battery" where
  "attempt b m k = (case m of Inl e \<Rightarrow> (Inl e, b) | Inr x \<Rightarrow> k x)"

definition average_current :: "battery \<Rightarrow> py_error + real" where
  "average_current b =
     and_then (load_current b) (\<lambda>lc.
     and_then (load_duration_per_day b) (\<lambda>ld.
     and_then (sleep_current b) (\<lambda>sc.
     and_then (operand (u_sleep_duration_per_day b)) (\<lambda>sd.
     Inr (py_round (lc * ld / 86400 + sc * sd / 86400) 3)))))"

definition effective_capacity :: "battery \<Rightarrow> py_error + real" where
  "effective_capacity b =
     and_then (battery_capacity b) (\<lambda>cap.
     and_then (operand (u_temperature_factor b)) (\<lambda>tf.
     Inr (tf * of_int cap)))"

definition update_battery_properties :: "workbook \<Rightarrow> battery \<Rightarrow> (py_error + int) \<times> battery" where
  "update_battery_properties wb b0 =
     (let b1 = b0\<lparr>u_min_operating_temp := - 40, u_max_operating_temp := 60,
                  u_max_shelf_life := 25\<rparr> in
      attempt b1 (battery_type b1) (\<lambda>ty.
      let b2 = (if ty = ''Alkaline''
                then b1\<lparr>u_min_operating_temp := - 18, u_max_operating_temp := 55,
                        u_max_shelf_life := 10\<rparr>
                else b1) in
      attempt b2 (load_duration_per_day b2) (\<lambda>ld.
      let b3 = b2\<lparr>u_sleep_duration_per_day := Some (86400 - ld)\<rparr> in
      attempt b3 (average_current b3) (\<lambda>avg.
      let b4 = b3\<lparr>u_average_current_draw := avg\<rparr>;
          b5 = b4\<lparr>u_current_discharge_mode := Some (update_current_discharge_mode b4)\<rparr> in
      attempt b5 (calculate_temperature_factor wb b5) (\<lambda>tf.
      let b6 = b5\<lparr>u_temperature_factor := tf\<rparr> in
      attempt b6 (effective_capacity b6) (\<lambda>ec.
      let b7 = b6\<lparr>u_effective_battery_capacity := Some ec\<rparr> in
      attempt b7 (calculate_runtime b7) (\<lambda>rt.
      (Inr 0, b7\<lparr>u_battery_runtime := Some rt\<rparr>))))))))"

section \<open>The lithium-only variant: \<^verbatim>\<open>lithium_battery_runtime_app.py\<close>\<close>

text \<open>
  The same class without the battery type, the average current draw and the discharge
  mode. Its names carry the prefix \<open>li_\<close>.
\<close>

record li_battery =
  li_u_battery_capacity :: "int option"
  li_u_operating_temp :: "real option"
  li_u_load_current :: "real option"
  li_u_load_duration_per_day :: "real option"
  li_u_sleep_current :: "real option"
  li_u_sleep_duration_per_day :: "real option"
  li_u_self_discharge_rate :: real
  li_u_max_shelf_life :: int
  li_u_min_operating_temp :: int
  li_u_max_operating_temp :: int
  li_u_temperature_factor :: "real option"
  li_u_effective_battery_capacity :: "real option"
  li_u_battery_runtime :: "real option"

definition li_set_battery_capacity :: "pyval \<Rightarrow> li_battery \<Rightarrow> li_battery" where
  "li_set_battery_capacity v b =
     (if isinstance_int v \<and> int_value v > 0
      then b\<lparr>li_u_battery_capacity := Some (int_value v)\<rparr> else b)"

definition li_set_operating_temp :: "pyval \<Rightarrow> li_battery \<Rightarrow> li_battery" where
  "li_set_operating_temp v b =
     (if isinstance_int v \<or> isinstance_float v
      then b\<lparr>li_u_operating_temp := Some (num_value v)\<rparr> else b)"

definition li_set_load_current :: "pyval \<Rightarrow> li_battery \<Rightarrow> li_battery" where
  "li_set_load_current v b =
     (if (isinstance_int v \<or> isinstance_float v) \<and> num_value v \<ge> 0
      then b\<lparr>li_u_load_current := Some (num_value v)\<rparr> else b)"

definition li_set_load_duration_per_day :: "pyval \<Rightarrow> li_battery \<Rightarrow> li_battery" where
  "li_set_load_duration_per_day v b =
     (if isinstance_int v \<or> isinstance_float v
      then (if num_value v \<ge> 0 \<and> num_value v \<le> 86400
            then b\<lparr>li_u_load_duration_per_day := Some (num_value v)\<rparr> else b)
      else b)"

definition li_set_sleep_current :: "pyval \<Rightarrow> li_battery \<Rightarrow> li_battery" where
  "li_set_sleep_current v b =
     (if (isinstance_int v \<or> isinstance_float v) \<and> num_value v \<ge> 0
      then b\<lparr>li_u_sleep_current := Some (num_value v)\<rparr> else b)"

definition li_battery_capacity :: "li_battery \<Rightarrow> py_error + int" where
  "li_battery_capacity b = attribute (li_u_battery_capacity b)"

definition li_operating_temp :: "li_battery \<Rightarrow> py_error + real" where
  "li_operating_temp b = attribute (li_u_operating_temp b)"

definition li_load_current :: "li_battery \<Rightarrow> py_error + real" where
  "li_load_current b = attribute (li_u_load_current b)"

definition li_load_duration_per_day :: "li_battery \<Rightarrow> py_error + real" where
  "li_load_duration_per_day b = attribute (li_u_load_duration_per_day b)"

definition li_sleep_current :: "li_battery \<Rightarrow> py_error + real" where
  "li_sleep_current b = attribute (li_u_sleep_current b)"

definition li_fresh :: li_battery where
  "li_fresh = \<lparr>li_u_battery_capacity = None, li_u_operating_temp = None,
     li_u_load_current = None, li_u_load_duration_per_day = None, li_u_sleep_current = None,
     li_u_sleep_duration_per_day = None, li_u_self_discharge_rate = 1/100,
     li_u_max_shelf_life = 25, li_u_min_operating_temp = - 40,
     li_u_max_operating_temp = 60, li_u_temperature_factor = None,
     li_u_effective_battery_capacity = None, li_u_battery_runtime = None\<rparr>"

definition li_init :: "pyval \<Rightarrow> pyval \<Rightarrow> pyval \<Rightarrow> pyval \<Rightarrow> pyval \<Rightarrow> li_battery" where
  "li_init cap temp lc ld sc =
     li_set_sleep_current sc (li_set_load_duration_per_day ld (li_set_load_current lc
       (li_set_operating_temp temp (li_set_battery_capacity cap li_fresh))))"

definition li_battery_details :: "li_battery \<Rightarrow> py_error + detail" where
  "li_battery_details b =
     and_then (li_battery_capacity b) (\<lambda>cap.
     and_then (li_operating_temp b) (\<lambda>temp.
     and_then (li_load_current b) (\<lambda>lc.
     and_then (li_load_duration_per_day b) (\<lambda>ld.
     and_then (li_sleep_current b) (\<lambda>sc.
     Inr (DDict
       [(''Battery Capacity (mAh)'', DInt cap),
        (''Operating Temperature (degC)'', DReal temp),
        (''Load Current (mA)'', DReal lc),
        (''Load Duration Per Day (s)'', DReal ld),
        (''Sleep Current (mA)'', DReal sc),
        (''Sleep Duration Per Day (s)'', opt_real (li_u_sleep_duration_per_day b)),
        (''Annual Self-discharge Rate'', DReal (li_u_self_discharge_rate b)),
        (''Max Shelf Life (Years)'', DInt (li_u_max_shelf_life b)),
        (''Min Operating Temperature (degC)'', DInt (li_u_min_operating_temp b)),
        (''Max Operating Temperature (degC)'', DInt (li_u_max_operating_temp b)),
        (''Temperature Factor'', opt_real (li_u_temperature_factor b)),
        (''Effective Battery Capacity (mAh)'', opt_real (li_u_effective_battery_capacity b)),
        (''Battery Runtime (Days)'', opt_real (li_u_battery_runtime b))]))))))"

text \<open>
  The sheet of this variant has the two columns operating temperature and temperature
  factor; it is a parameter as well.
\<close>

definition li_calculate_temperature_factor ::
  "(real \<times> real) list \<Rightarrow> li_battery \<Rightarrow> py_error + real option" where
  "li_calculate_temperature_factor df b =
     and_then (li_operating_temp b) (\<lambda>t.
     if t < of_int (li_u_min_operating_temp b) \<or> t > of_int (li_u_max_operating_temp b)
     then Inr (Some 0)
     else if t \<ge> - 10 then Inr (Some 1)
     else Inr (interpolate t df))"

definition li_calculate_runtime :: "li_battery \<Rightarrow> py_error + real" where
  "li_calculate_runtime b =
     and_then (li_load_current b) (\<lambda>lc.
     and_then (li_load_duration_per_day b) (\<lambda>ld.
     and_then (li_sleep_current b) (\<lambda>sc.
     and_then (operand (li_u_sleep_duration_per_day b)) (\<lambda>sd.
     and_then (operand (li_u_effective_battery_capacity b)) (\<lambda>ec.
     let total = total_daily_consumption lc ld sc sd (li_u_self_discharge_rate b) ec in
     if total = 0 then Inl ZeroDivisionError
     else
       let battery_runtime = ec / total;
           battery_runtime = (if battery_runtime / 365 \<ge> of_int (li_u_max_shelf_life b)
                              then of_int (li_u_max_shelf_life b * 365) else battery_runtime)
       in Inr battery_runtime)))))"

definition li_attempt ::
  "li_battery \<Rightarrow> py_error + 'a \<Rightarrow> ('a \<Rightarrow> (py_error + int) \<times> li_battery)
     \<Rightarrow> (py_error + int) \<times> li_battery" where
  "li_attempt b m k = (case m of Inl e \<Rightarrow> (Inl e, b) | Inr x \<Rightarrow> k x)"

definition li_effective_capacity :: "li_battery \<Rightarrow> py_error + real" where
  "li_effective_capacity b =
     and_then (li_battery_capacity b) (\<lambda>cap.
     and_then (operand (li_u_temperature_factor b)) (\<lambda>tf.
     Inr (tf * of_int cap)))"

definition li_update_battery_properties ::
  "(real \<times> real) list \<Rightarrow> li_battery \<Rightarrow> (py_error + int) \<times> li_battery" where
  "li_update_battery_properties df b0 =
     li_attempt b0 (li_load_duration_per_day b0) (\<lambda>ld.
     let b1 = b0\<lparr>li_u_sleep_duration_per_day := Some (86400 - ld)\<rparr> in
     li_attempt b1 (li_calculate_temperature_factor df b1) (\<lambda>tf.
     let b2 = b1\<lparr>li_u_temperature_factor := tf\<rparr> in
     li_attempt b2 (li_effective_capacity b2) (\<lambda>ec.
     let b3 = b2\<lparr>li_u_effective_battery_capacity := Some ec\<rparr> in
     li_attempt b3 (li_calculate_runtime b3) (\<lambda>rt.
     (Inr 0, b3\<lparr>li_u_battery_runtime := Some rt\<rparr>)))))"

section \<open>Notions used to state the properties\<close>

subsection \<open>The constraints of the setters\<close>

text \<open>
  What each setter requires of the assigned value: the condition under which the source
  assigns, named so that the properties can speak of a value that violates it.
\<close>

definition battery_type_constraint :: "pyval \<Rightarrow> bool" where
  "battery_type_constraint v = (v = PStr ''Lithium Metal'' \<or> v = PStr ''Alkaline'')"

definition battery_capacity_constraint :: "pyval \<Rightarrow> bool" where
  "battery_capacity_constraint v = (isinstance_int v \<and> 0 \<le> int_value v)"

definition li_battery_capacity_constraint :: "pyval \<Rightarrow> bool" where
  "li_battery_capacity_constraint v = (isinstance_int v \<and> 0 < int_value v)"

definition operating_temp_constraint :: "pyval \<Rightarrow> bool" where
  "operating_temp_constraint v = (isinstance_int v \<or> isinstance_float v)"

definition current_constraint :: "pyval \<Rightarrow> bool" where
  "current_constraint v = ((isinstance_int v \<or> isinstance_float v) \<and> 0 \<le> num_value v)"

definition load_duration_constraint :: "pyval \<Rightarrow> bool" where
  "load_duration_constraint v =
     ((isinstance_int v \<or> isinstance_float v) \<and> 0 \<le> num_value v \<and> num_value v \<le> 86400)"

subsection \<open>Objects whose constructor arguments were all accepted\<close>

fun holds :: "'a option \<Rightarrow> ('a \<Rightarrow> bool) \<Rightarrow> bool" where
  "holds None P = False"
| "holds (Some x) P = P x"

text \<open>
  An accepted object has its six settable attributes, with values that the setters admit,
  and the constants that \<^verbatim>\<open>__init__\<close> assigns and no method changes.
\<close>

definition accepted :: "battery \<Rightarrow> bool" where
  "accepted b =
     (holds (u_battery_type b) (\<lambda>ty. ty = ''Lithium Metal'' \<or> ty = ''Alkaline'') \<and>
      holds (u_battery_capacity b) (\<lambda>cap. 0 \<le> cap) \<and>
      holds (u_operating_temp b) (\<lambda>t. True) \<and>
      holds (u_load_current b) (\<lambda>lc. 0 \<le> lc) \<and>
      holds (u_load_duration_per_day b) (\<lambda>ld. 0 \<le> ld \<and> ld \<le> 86400) \<and>
      holds (u_sleep_current b) (\<lambda>sc. 0 \<le> sc) \<and>
      u_self_discharge_rate b = 1/100 \<and>
      u_low_current_discharge b = 25 \<and> u_medium_current_discharge b = 250 \<and>
      u_high_current_discharge b = 1000)"

definition li_accepted :: "li_battery \<Rightarrow> bool" where
  "li_accepted b =
     (holds (li_u_battery_capacity b) (\<lambda>cap. 0 < cap) \<and>
      holds (li_u_operating_temp b) (\<lambda>t. True) \<and>
      holds (li_u_load_current b) (\<lambda>lc. 0 \<le> lc) \<and>
      holds (li_u_load_duration_per_day b) (\<lambda>ld. 0 \<le> ld \<and> ld \<le> 86400) \<and>
      holds (li_u_sleep_current b) (\<lambda>sc. 0 \<le> sc) \<and>
      li_u_self_discharge_rate b = 1/100 \<and>
      li_u_min_operating_temp b = - 40 \<and> li_u_max_operating_temp b = 60 \<and>
      li_u_max_shelf_life b = 25)"

subsection \<open>The two halves of \<^verbatim>\<open>update_battery_properties\<close>\<close>

text \<open>
  \<open>discharge_state\<close> is the object as \<^verbatim>\<open>update_battery_properties\<close> has it when it calls
  \<^verbatim>\<open>calculate_temperature_factor\<close>: chemistry constants, sleep duration, average current
  draw and discharge mode are assigned. \<open>finish_update\<close> is the rest of the method from
  that call on. For an object that has its attributes the method is the second after the
  first (lemma \<open>update_battery_properties_split\<close>).
\<close>

definition discharge_state :: "battery \<Rightarrow> battery" where
  "discharge_state b0 =
     (let b1 = b0\<lparr>u_min_operating_temp := - 40, u_max_operating_temp := 60,
                  u_max_shelf_life := 25\<rparr>;
          b2 = (if u_battery_type b1 = Some ''Alkaline''
                then b1\<lparr>u_min_operating_temp := - 18, u_max_operating_temp := 55,
                        u_max_shelf_life := 10\<rparr>
                else b1);
          b3 = b2\<lparr>u_sleep_duration_per_day :=
                      map_option (\<lambda>ld. 86400 - ld) (u_load_duration_per_day b2)\<rparr>;
          b4 = b3\<lparr>u_average_current_draw :=
                      (case average_current b3 of Inr avg \<Rightarrow> avg
                       | Inl e \<Rightarrow> u_average_current_draw b3)\<rparr>
      in b4\<lparr>u_current_discharge_mode := Some (update_current_discharge_mode b4)\<rparr>)"

definition finish_update :: "workbook \<Rightarrow> battery \<Rightarrow> (py_error + int) \<times> battery" where
  "finish_update wb b5 =
      attempt b5 (calculate_temperature_factor wb b5) (\<lambda>tf.
      let b6 = b5\<lparr>u_temperature_factor := tf\<rparr> in
      attempt b6 (effective_capacity b6) (\<lambda>ec.
      let b7 = b6\<lparr>u_effective_battery_capacity := Some ec\<rparr> in
      attempt b7 (calculate_runtime b7) (\<lambda>rt.
      (Inr 0, b7\<lparr>u_battery_runtime := Some rt\<rparr>))))"

text \<open>The rows that \<^verbatim>\<open>calculate_temperature_factor\<close> keeps for an object: its curve.\<close>

definition curve_of :: "workbook \<Rightarrow> battery \<Rightarrow> (real \<times> real) list" where
  "curve_of wb b =
     (case discharge_limit b of
        Inl e \<Rightarrow> []
      | Inr limit \<Rightarrow>
          select_rows limit (if u_battery_type b = Some ''Alkaline''
                             then alkaline_temperature_factor wb
                             else li_temperature_factor wb))"

subsection \<open>Example inputs\<close>

text \<open>
  The test objects of the two source files, and sheets of the shape the interfaces
  describe: per discharge limit, rows by descending temperature from the maximum to the
  minimum operating temperature, with factors between 0 and 1.
\<close>

definition example_workbook :: workbook where
  "example_workbook =
     \<lparr>li_temperature_factor =
        [(25, 60, 1), (25, - 40, 1/2), (250, 60, 1), (250, - 40, 2/5),
         (1000, 60, 1), (1000, - 40, 1/5)],
      alkaline_temperature_factor =
        [(25, 55, 1), (25, - 18, 1/2), (250, 55, 1), (250, - 18, 2/5),
         (1000, 55, 1), (1000, - 18, 1/5)]\<rparr>"

definition example_battery :: battery where
  "example_battery =
     init (PStr ''Lithium Metal'') (PInt 16000) (PInt (- 35)) (PInt 1500) (PInt 2000)
       (PFloat (3/50))"

definition li_example_sheet :: "(real \<times> real) list" where
  "li_example_sheet = [(- 10, 1), (- 40, 1/2)]"

definition li_example_battery :: li_battery where
  "li_example_battery =
     li_init (PInt 16000) (PInt (- 35)) (PInt 90) (PInt 240) (PFloat (60167/1000000))"

text \<open>
  Objects that draw no current, as \<^verbatim>\<open>update_battery_properties\<close> has them when it calls
  \<^verbatim>\<open>calculate_runtime\<close> at a temperature factor of 1.
\<close>

definition idle_battery :: "string \<Rightarrow> battery" where
  "idle_battery ty =
     (discharge_state (init (PStr ty) (PInt 16000) (PInt 20) (PInt 0) (PInt 86400) (PInt 0)))
       \<lparr>u_temperature_factor := Some 1, u_effective_battery_capacity := Some 16000\<rparr>"

definition li_idle_battery :: li_battery where
  "li_idle_battery =
     (li_init (PInt 16000) (PInt 20) (PInt 0) (PInt 86400) (PInt 0))
       \<lparr>li_u_sleep_duration_per_day := Some 0, li_u_temperature_factor := Some 1,
        li_u_effective_battery_capacity := Some 16000\<rparr>"

text \<open>
  A lithium-only object outside the operating range that draws no current, and a
  generalized object whose capacity was passed as a float.
\<close>

definition li_cold_idle_battery :: li_battery where
  "li_cold_idle_battery = li_init (PInt 16000) (PInt (- 50)) (PInt 0) (PInt 86400) (PInt 0)"


text \<open>Objects at the maximum operating temperature of their chemistry.\<close>

definition hot_battery :: battery where
  "hot_battery =
     init (PStr ''Alkaline'') (PInt 2000) (PInt 55) (PInt 10) (PInt 86400) (PInt 0)"

definition li_hot_battery :: li_battery where
  "li_hot_battery = li_init (PInt 16000) (PInt 60) (PInt 90) (PInt 240) (PInt 0)"

subsection \<open>The value of the runtime\<close>





section \<open>Properties\<close>

subsection \<open>Auxiliary facts\<close>

lemma holdsE: "holds a P \<Longrightarrow> (\<And>x. a = Some x \<Longrightarrow> P x \<Longrightarrow> R) \<Longrightarrow> R"
  by (cases a) auto

lemma update_battery_properties_split:
  assumes "u_battery_type b = Some ty" and "u_load_current b = Some lc"
    and "u_load_duration_per_day b = Some ld" and "u_sleep_current b = Some sc"
  shows "update_battery_properties wb b = finish_update wb (discharge_state b)"
  using assms
  by (simp add: update_battery_properties_def finish_update_def discharge_state_def
      attempt_def Let_def battery_type_def load_duration_per_day_def attribute_def
      average_current_def load_current_def sleep_current_def and_then_def operand_def
      split: sum.splits)

lemma discharge_state_fields:
  assumes "u_battery_type b = Some ty" and "u_load_current b = Some lc"
    and "u_load_duration_per_day b = Some ld" and "u_sleep_current b = Some sc"
  shows "u_battery_type (discharge_state b) = Some ty"
    and "u_battery_capacity (discharge_state b) = u_battery_capacity b"
    and "u_operating_temp (discharge_state b) = u_operating_temp b"
    and "u_load_current (discharge_state b) = Some lc"
    and "u_load_duration_per_day (discharge_state b) = Some ld"
    and "u_sleep_current (discharge_state b) = Some sc"
    and "u_sleep_duration_per_day (discharge_state b) = Some (86400 - ld)"
    and "u_average_current_draw (discharge_state b) =
           py_round (lc * ld / 86400 + sc * (86400 - ld) / 86400) 3"
    and "u_self_discharge_rate (discharge_state b) = u_self_discharge_rate b"
    and "u_max_shelf_life (discharge_state b) = (if ty = ''Alkaline'' then 10 else 25)"
    and "u_min_operating_temp (discharge_state b) = (if ty = ''Alkaline'' then - 18 else - 40)"
    and "u_max_operating_temp (discharge_state b) = (if ty = ''Alkaline'' then 55 else 60)"
    and "u_low_current_discharge (discharge_state b) = u_low_current_discharge b"
    and "u_medium_current_discharge (discharge_state b) = u_medium_current_discharge b"
    and "u_high_current_discharge (discharge_state b) = u_high_current_discharge b"
  using assms
  by (simp_all add: discharge_state_def Let_def average_current_def load_current_def
      load_duration_per_day_def sleep_current_def attribute_def operand_def and_then_def)

lemma discharge_state_mode:
  assumes "u_battery_type b = Some ty" and "u_load_current b = Some lc"
    and "u_load_duration_per_day b = Some ld" and "u_sleep_current b = Some sc"
  shows "u_current_discharge_mode (discharge_state b) =
     Some (let avg = py_round (lc * ld / 86400 + sc * (86400 - ld) / 86400) 3 in
           if avg \<le> of_int (u_low_current_discharge b) then ''Low''
           else if avg \<le> of_int (u_medium_current_discharge b) then ''Medium'' else ''High'')"
  using assms
  by (simp add: discharge_state_def Let_def average_current_def load_current_def
      load_duration_per_day_def sleep_current_def attribute_def operand_def and_then_def
      update_current_discharge_mode_def)

lemma finish_update_keeps:
  "u_sleep_duration_per_day (snd (finish_update wb b)) = u_sleep_duration_per_day b"
  "u_load_duration_per_day (snd (finish_update wb b)) = u_load_duration_per_day b"
  "u_average_current_draw (snd (finish_update wb b)) = u_average_current_draw b"
  "u_current_discharge_mode (snd (finish_update wb b)) = u_current_discharge_mode b"
  by (simp_all add: finish_update_def attempt_def Let_def split: sum.splits)

lemmas setter_defs =
  set_battery_type_def set_battery_capacity_def set_operating_temp_def set_load_current_def
  set_load_duration_per_day_def set_sleep_current_def

lemmas li_setter_defs =
  li_set_battery_capacity_def li_set_operating_temp_def li_set_load_current_def
  li_set_load_duration_per_day_def li_set_sleep_current_def

lemma example_battery_fields:
  "u_battery_type example_battery = Some ''Lithium Metal''"
  "u_battery_capacity example_battery = Some 16000"
  "u_operating_temp example_battery = Some (- 35)"
  "u_load_current example_battery = Some 1500"
  "u_load_duration_per_day example_battery = Some 2000"
  "u_sleep_current example_battery = Some (3/50)"
  "u_self_discharge_rate example_battery = 1/100"
  "u_low_current_discharge example_battery = 25"
  "u_medium_current_discharge example_battery = 250"
  "u_high_current_discharge example_battery = 1000"
  by (simp_all add: example_battery_def init_def fresh_def setter_defs)

lemma li_example_battery_fields:
  "li_u_battery_capacity li_example_battery = Some 16000"
  "li_u_operating_temp li_example_battery = Some (- 35)"
  "li_u_load_current li_example_battery = Some 90"
  "li_u_load_duration_per_day li_example_battery = Some 240"
  "li_u_sleep_current li_example_battery = Some (60167/1000000)"
  "li_u_self_discharge_rate li_example_battery = 1/100"
  "li_u_max_shelf_life li_example_battery = 25"
  "li_u_min_operating_temp li_example_battery = - 40"
  "li_u_max_operating_temp li_example_battery = 60"
  by (simp_all add: li_example_battery_def li_init_def li_fresh_def li_setter_defs)

subsection \<open>Sleep duration and load duration\<close>

lemma update_sleep_duration:
  assumes "u_battery_type b = Some ty" and "u_load_duration_per_day b = Some ld"
  shows "u_sleep_duration_per_day (snd (update_battery_properties wb b)) = Some (86400 - ld)
    \<and> u_load_duration_per_day (snd (update_battery_properties wb b)) = Some ld"
  using assms
  by (simp add: update_battery_properties_def attempt_def Let_def battery_type_def
      load_duration_per_day_def attribute_def split: sum.splits)

lemma li_update_sleep_duration:
  assumes "li_u_load_duration_per_day b = Some ld"
  shows "li_u_sleep_duration_per_day (snd (li_update_battery_properties df b)) = Some (86400 - ld)
    \<and> li_u_load_duration_per_day (snd (li_update_battery_properties df b)) = Some ld"
  using assms
  by (simp add: li_update_battery_properties_def li_attempt_def Let_def
      li_load_duration_per_day_def attribute_def split: sum.splits)

text \<open>
  Claim C8. In both variants, after a call of \<^verbatim>\<open>update_battery_properties\<close> on an object
  whose load duration \<open>ld\<close> lies in [0, 86400], the sleep duration is 86400 - \<open>ld\<close>, so
  sleep duration and load duration add up to 86400. (In the generalized variant the
  method reads the battery type first, so that attribute has to exist.) This holds for
  the object the call leaves behind whether it returns or raises later on.
\<close>

theorem sleep_and_load_duration_fill_the_day:
  "(u_battery_type b = Some ty \<and> u_load_duration_per_day b = Some ld \<and> 0 \<le> ld \<and> ld \<le> 86400 \<longrightarrow>
      (let b' = snd (update_battery_properties wb b) in
         u_load_duration_per_day b' = Some ld \<and>
         u_sleep_duration_per_day b' = Some (86400 - ld) \<and>
         (86400 - ld) + ld = 86400))
   \<and> (li_u_load_duration_per_day c = Some ld \<and> 0 \<le> ld \<and> ld \<le> 86400 \<longrightarrow>
      (let c' = snd (li_update_battery_properties df c) in
         li_u_load_duration_per_day c' = Some ld \<and>
         li_u_sleep_duration_per_day c' = Some (86400 - ld) \<and>
         (86400 - ld) + ld = 86400))"
  using update_sleep_duration[of b ty ld wb] li_update_sleep_duration[of c ld df]
  by (simp add: Let_def)

theorem sleep_and_load_duration_fill_the_day_witness:
  "u_sleep_duration_per_day (snd (update_battery_properties example_workbook example_battery))
     = Some 84400
   \<and> li_u_sleep_duration_per_day
       (snd (li_update_battery_properties li_example_sheet li_example_battery)) = Some 86160"
  using sleep_and_load_duration_fill_the_day[of example_battery "''Lithium Metal''" 2000
      example_workbook li_example_battery li_example_sheet]
    sleep_and_load_duration_fill_the_day[of example_battery "''Lithium Metal''" 240
      example_workbook li_example_battery li_example_sheet]
  by (simp add: Let_def example_battery_fields li_example_battery_fields)

subsection \<open>Rejected assignments\<close>

text \<open>
  Claim C5. For every settable parameter of either variant, assigning a value that
  violates the setter's constraint leaves the object as it was, so the property still
  reads as before. The setters are total here because their bodies cannot raise: the
  comparison is reached only by a value that passed the \<^verbatim>\<open>isinstance\<close> test.
\<close>

theorem invalid_assignment_is_ignored:
  "(\<not> battery_type_constraint v \<longrightarrow>
      set_battery_type v b = b \<and> battery_type (set_battery_type v b) = battery_type b)
   \<and> (\<not> battery_capacity_constraint v \<longrightarrow>
      set_battery_capacity v b = b \<and>
      battery_capacity (set_battery_capacity v b) = battery_capacity b)
   \<and> (\<not> operating_temp_constraint v \<longrightarrow>
      set_operating_temp v b = b \<and> operating_temp (set_operating_temp v b) = operating_temp b)
   \<and> (\<not> current_constraint v \<longrightarrow>
      set_load_current v b = b \<and> load_current (set_load_current v b) = load_current b)
   \<and> (\<not> load_duration_constraint v \<longrightarrow>
      set_load_duration_per_day v b = b \<and>
      load_duration_per_day (set_load_duration_per_day v b) = load_duration_per_day b)
   \<and> (\<not> current_constraint v \<longrightarrow>
      set_sleep_current v b = b \<and> sleep_current (set_sleep_current v b) = sleep_current b)
   \<and> (\<not> li_battery_capacity_constraint v \<longrightarrow>
      li_set_battery_capacity v c = c \<and>
      li_battery_capacity (li_set_battery_capacity v c) = li_battery_capacity c)
   \<and> (\<not> operating_temp_constraint v \<longrightarrow>
      li_set_operating_temp v c = c \<and>
      li_operating_temp (li_set_operating_temp v c) = li_operating_temp c)
   \<and> (\<not> current_constraint v \<longrightarrow>
      li_set_load_current v c = c \<and> li_load_current (li_set_load_current v c) = li_load_current c)
   \<and> (\<not> load_duration_constraint v \<longrightarrow>
      li_set_load_duration_per_day v c = c \<and>
      li_load_duration_per_day (li_set_load_duration_per_day v c) = li_load_duration_per_day c)
   \<and> (\<not> current_constraint v \<longrightarrow>
      li_set_sleep_current v c = c \<and>
      li_sleep_current (li_set_sleep_current v c) = li_sleep_current c)"
  by (simp add: setter_defs li_setter_defs battery_type_constraint_def
      battery_capacity_constraint_def operating_temp_constraint_def current_constraint_def
      load_duration_constraint_def li_battery_capacity_constraint_def)

theorem invalid_assignment_is_ignored_witness:
  "set_battery_capacity (PInt (- 1)) example_battery = example_battery
   \<and> battery_capacity (set_battery_capacity (PFloat (5/2)) example_battery) = Inr 16000
   \<and> li_set_battery_capacity (PInt 0) li_example_battery = li_example_battery
   \<and> set_battery_type (PStr ''NiMH'') example_battery = example_battery
   \<and> set_operating_temp (PStr ''hot'') example_battery = example_battery
   \<and> set_load_current (PInt (- 5)) example_battery = example_battery
   \<and> set_load_duration_per_day (PInt 86401) example_battery = example_battery
   \<and> set_sleep_current PNone example_battery = example_battery
   \<and> li_set_operating_temp PNone li_example_battery = li_example_battery
   \<and> li_set_load_current (PFloat (- 1/2)) li_example_battery = li_example_battery
   \<and> li_set_load_duration_per_day (PInt (- 1)) li_example_battery = li_example_battery
   \<and> li_set_sleep_current (PStr ''0'') li_example_battery = li_example_battery"
  using invalid_assignment_is_ignored[of "PInt (- 1)" example_battery li_example_battery]
    invalid_assignment_is_ignored[of "PFloat (5/2)" example_battery li_example_battery]
    invalid_assignment_is_ignored[of "PInt 0" example_battery li_example_battery]
    invalid_assignment_is_ignored[of "PStr ''NiMH''" example_battery li_example_battery]
    invalid_assignment_is_ignored[of "PStr ''hot''" example_battery li_example_battery]
    invalid_assignment_is_ignored[of "PInt (- 5)" example_battery li_example_battery]
    invalid_assignment_is_ignored[of "PInt 86401" example_battery li_example_battery]
    invalid_assignment_is_ignored[of "PNone" example_battery li_example_battery]
    invalid_assignment_is_ignored[of "PFloat (- 1/2)" example_battery li_example_battery]
    invalid_assignment_is_ignored[of "PStr ''0''" example_battery li_example_battery]
  by (simp add: battery_type_constraint_def battery_capacity_constraint_def
      operating_temp_constraint_def current_constraint_def load_duration_constraint_def
      li_battery_capacity_constraint_def battery_capacity_def attribute_def
      example_battery_fields)

subsection \<open>Average current draw and discharge mode\<close>

lemma update_average:
  assumes "u_battery_type b = Some ty" and "u_load_current b = Some lc"
    and "u_load_duration_per_day b = Some ld" and "u_sleep_current b = Some sc"
  shows "u_average_current_draw (snd (update_battery_properties wb b)) =
           py_round (lc * ld / 86400 + sc * (86400 - ld) / 86400) 3"
    and "u_sleep_duration_per_day (snd (update_battery_properties wb b)) = Some (86400 - ld)"
    and "u_current_discharge_mode (snd (update_battery_properties wb b)) =
     Some (let avg = py_round (lc * ld / 86400 + sc * (86400 - ld) / 86400) 3 in
           if avg \<le> of_int (u_low_current_discharge b) then ''Low''
           else if avg \<le> of_int (u_medium_current_discharge b) then ''Medium'' else ''High'')"
  using assms
  by (simp_all add: update_battery_properties_split[OF assms] finish_update_keeps
      discharge_state_fields[OF assms] discharge_state_mode[OF assms])

lemma example_average:
  "py_round (1500 * 2000 / 86400 + (3/50) * (86400 - 2000) / 86400) 3 = 34781/1000"
  by (simp add: py_round_def round_half_even_def Let_def)

text \<open>
  Claim C6. In the generalized variant, after \<^verbatim>\<open>update_battery_properties\<close> on an object
  that has its attributes (with the discharge limits 25 and 250 of \<^verbatim>\<open>__init__\<close>), the
  average current draw is load current times load duration over 86400 plus sleep current
  times sleep duration over 86400, rounded to 3 decimal places, and the discharge mode is
  Low for an average of at most 25, Medium for one above 25 and at most 250, High
  otherwise. The two attributes are assigned before the temperature-factor lookup, so
  this holds for the object that the call leaves behind even when a later step raises.
\<close>

theorem average_current_draw_and_discharge_mode:
  assumes "u_battery_type b = Some ty" and "u_load_current b = Some lc"
    and "u_load_duration_per_day b = Some ld" and "u_sleep_current b = Some sc"
    and "u_low_current_discharge b = 25" and "u_medium_current_discharge b = 250"
    and "b' = snd (update_battery_properties wb b)"
    and "u_sleep_duration_per_day b' = Some sd"
    and "avg = u_average_current_draw b'"
  shows "avg = py_round (lc * ld / 86400 + sc * sd / 86400) 3 \<and>
         u_current_discharge_mode b' =
           Some (if avg \<le> 25 then ''Low'' else if avg \<le> 250 then ''Medium'' else ''High'')"
  using assms update_average[of b ty lc ld sc wb]
  by (simp add: Let_def)

theorem average_current_draw_and_discharge_mode_witness:
  "u_average_current_draw (snd (update_battery_properties example_workbook example_battery))
     = 34781/1000
   \<and> u_current_discharge_mode (snd (update_battery_properties example_workbook example_battery))
     = Some ''Medium''"
proof -
  let ?b' = "snd (update_battery_properties example_workbook example_battery)"
  have sd: "u_sleep_duration_per_day ?b' = Some 84400"
    using update_sleep_duration[of example_battery "''Lithium Metal''" 2000 example_workbook]
    by (simp add: example_battery_fields)
  show ?thesis
    using average_current_draw_and_discharge_mode[of example_battery "''Lithium Metal''"
        1500 2000 "3/50" ?b' example_workbook 84400 "u_average_current_draw ?b'", OF _ _ _ _ _ _ _ sd]
      example_average
    by (simp add: example_battery_fields)
qed

subsection \<open>The shelf-life clamp\<close>

lemma round_half_even_of_int: "round_half_even (of_int k) = k"
  by (simp add: round_half_even_def Let_def)

lemma py_round_of_int: "py_round (of_int k) n = of_int k"
proof -
  have "(of_int k :: real) * 10 ^ n = of_int (k * 10 ^ n)" by simp
  then have "round_half_even (of_int k * 10 ^ n) = k * 10 ^ n"
    using round_half_even_of_int[of "k * 10 ^ n"] by simp
  then show ?thesis by (simp add: py_round_def)
qed

lemma calculate_runtime_clamped:
  assumes "u_load_current b = Some lc" and "u_load_duration_per_day b = Some ld"
    and "u_sleep_current b = Some sc" and "u_sleep_duration_per_day b = Some sd"
    and "u_effective_battery_capacity b = Some ec"
    and "tdc = total_daily_consumption lc ld sc sd (u_self_discharge_rate b) ec"
    and "tdc \<noteq> 0" and "0 < u_max_shelf_life b"
    and "ec / tdc / 365 \<ge> of_int (u_max_shelf_life b)"
  shows "calculate_runtime b = Inr (of_int (u_max_shelf_life b * 365))"
proof -
  have "ec \<noteq> 0" using assms(8,9) by auto
  then show ?thesis using assms
    by (simp add: calculate_runtime_def load_current_def load_duration_per_day_def
        sleep_current_def attribute_def operand_def and_then_def Let_def
        py_round_of_int[of "u_max_shelf_life b * 365" 2, simplified])
qed

lemma li_calculate_runtime_clamped:
  assumes "li_u_load_current b = Some lc" and "li_u_load_duration_per_day b = Some ld"
    and "li_u_sleep_current b = Some sc" and "li_u_sleep_duration_per_day b = Some sd"
    and "li_u_effective_battery_capacity b = Some ec"
    and "tdc = total_daily_consumption lc ld sc sd (li_u_self_discharge_rate b) ec"
    and "tdc \<noteq> 0"
    and "ec / tdc / 365 \<ge> of_int (li_u_max_shelf_life b)"
  shows "li_calculate_runtime b = Inr (of_int (li_u_max_shelf_life b * 365))"
  using assms
  by (simp add: li_calculate_runtime_def li_load_current_def li_load_duration_per_day_def
      li_sleep_current_def attribute_def operand_def and_then_def Let_def)

lemma update_max_shelf_life:
  assumes "u_battery_type b = Some ty"
  shows "u_max_shelf_life (snd (update_battery_properties wb b)) =
           (if ty = ''Alkaline'' then 10 else 25)"
  using assms
  by (simp add: update_battery_properties_def attempt_def Let_def battery_type_def
      attribute_def split: sum.splits)

lemma idle_battery_fields:
  assumes "ty = ''Lithium Metal'' \<or> ty = ''Alkaline''"
  shows "u_load_current (idle_battery ty) = Some 0"
    and "u_load_duration_per_day (idle_battery ty) = Some 86400"
    and "u_sleep_current (idle_battery ty) = Some 0"
    and "u_sleep_duration_per_day (idle_battery ty) = Some 0"
    and "u_effective_battery_capacity (idle_battery ty) = Some 16000"
    and "u_self_discharge_rate (idle_battery ty) = 1/100"
    and "u_max_shelf_life (idle_battery ty) = (if ty = ''Alkaline'' then 10 else 25)"
  using assms
  by (auto simp add: idle_battery_def discharge_state_def Let_def init_def fresh_def
      setter_defs)

lemma li_idle_battery_fields:
  "li_u_load_current li_idle_battery = Some 0"
  "li_u_load_duration_per_day li_idle_battery = Some 86400"
  "li_u_sleep_current li_idle_battery = Some 0"
  "li_u_sleep_duration_per_day li_idle_battery = Some 0"
  "li_u_effective_battery_capacity li_idle_battery = Some 16000"
  "li_u_self_discharge_rate li_idle_battery = 1/100"
  "li_u_max_shelf_life li_idle_battery = 25"
  by (simp_all add: li_idle_battery_def li_init_def li_fresh_def li_setter_defs)

text \<open>
  Claim C3. In both variants, when the unclamped quotient of effective capacity by total
  daily consumption, divided by 365, is at least the maximum shelf life, then
  \<^verbatim>\<open>calculate_runtime\<close> returns exactly the maximum shelf life times 365. The quotient
  exists when the consumption is not 0, and the shelf life is one of the two values that
  the code assigns: 25 (lithium metal, 9125 days) or 10 (alkaline, 3650 days), which
  \<^verbatim>\<open>update_battery_properties\<close> selects by the battery type.
\<close>

theorem shelf_life_clamp:
  "(u_load_current b = Some lc \<and> u_load_duration_per_day b = Some ld \<and>
    u_sleep_current b = Some sc \<and> u_sleep_duration_per_day b = Some sd \<and>
    u_effective_battery_capacity b = Some ec \<and>
    tdc = total_daily_consumption lc ld sc sd (u_self_discharge_rate b) ec \<and> tdc \<noteq> 0 \<and>
    (u_max_shelf_life b = 25 \<or> u_max_shelf_life b = 10) \<and>
    ec / tdc / 365 \<ge> of_int (u_max_shelf_life b) \<longrightarrow>
      calculate_runtime b = Inr (of_int (u_max_shelf_life b * 365)) \<and>
      calculate_runtime b = Inr (if u_max_shelf_life b = 25 then 9125 else 3650))
   \<and> (u_battery_type b = Some ty \<longrightarrow>
      u_max_shelf_life (snd (update_battery_properties wb b)) =
        (if ty = ''Alkaline'' then 10 else 25))
   \<and> (li_u_load_current c = Some lc \<and> li_u_load_duration_per_day c = Some ld \<and>
    li_u_sleep_current c = Some sc \<and> li_u_sleep_duration_per_day c = Some sd \<and>
    li_u_effective_battery_capacity c = Some ec \<and>
    tdc = total_daily_consumption lc ld sc sd (li_u_self_discharge_rate c) ec \<and> tdc \<noteq> 0 \<and>
    li_u_max_shelf_life c = 25 \<and>
    ec / tdc / 365 \<ge> of_int (li_u_max_shelf_life c) \<longrightarrow>
      li_calculate_runtime c = Inr (of_int (li_u_max_shelf_life c * 365)) \<and>
      li_calculate_runtime c = Inr 9125)"
proof (intro conjI impI)
  assume h: "u_load_current b = Some lc \<and> u_load_duration_per_day b = Some ld \<and>
    u_sleep_current b = Some sc \<and> u_sleep_duration_per_day b = Some sd \<and>
    u_effective_battery_capacity b = Some ec \<and>
    tdc = total_daily_consumption lc ld sc sd (u_self_discharge_rate b) ec \<and> tdc \<noteq> 0 \<and>
    (u_max_shelf_life b = 25 \<or> u_max_shelf_life b = 10) \<and>
    ec / tdc / 365 \<ge> of_int (u_max_shelf_life b)"
  then have pos: "0 < u_max_shelf_life b" by auto
  from h pos show r: "calculate_runtime b = Inr (of_int (u_max_shelf_life b * 365))"
    using calculate_runtime_clamped[of b lc ld sc sd ec tdc] by blast
  from h show "calculate_runtime b = Inr (if u_max_shelf_life b = 25 then 9125 else 3650)"
    unfolding r by auto
next
  assume "u_battery_type b = Some ty"
  then show "u_max_shelf_life (snd (update_battery_properties wb b)) =
        (if ty = ''Alkaline'' then 10 else 25)"
    by (rule update_max_shelf_life)
next
  assume h: "li_u_load_current c = Some lc \<and> li_u_load_duration_per_day c = Some ld \<and>
    li_u_sleep_current c = Some sc \<and> li_u_sleep_duration_per_day c = Some sd \<and>
    li_u_effective_battery_capacity c = Some ec \<and>
    tdc = total_daily_consumption lc ld sc sd (li_u_self_discharge_rate c) ec \<and> tdc \<noteq> 0 \<and>
    li_u_max_shelf_life c = 25 \<and>
    ec / tdc / 365 \<ge> of_int (li_u_max_shelf_life c)"
  then show r: "li_calculate_runtime c = Inr (of_int (li_u_max_shelf_life c * 365))"
    using li_calculate_runtime_clamped[of c lc ld sc sd ec tdc] by blast
  from h show "li_calculate_runtime c = Inr 9125"
    unfolding r by simp
qed

theorem shelf_life_clamp_witness:
  "calculate_runtime (idle_battery ''Lithium Metal'') = Inr 9125
   \<and> calculate_runtime (idle_battery ''Alkaline'') = Inr 3650
   \<and> li_calculate_runtime li_idle_battery = Inr 9125
   \<and> u_max_shelf_life (snd (update_battery_properties example_workbook example_battery)) = 25"
  using shelf_life_clamp[of "idle_battery ''Lithium Metal''" 0 86400 0 0 16000 "32/73"
      "''Lithium Metal''" example_workbook li_idle_battery]
    shelf_life_clamp[of "idle_battery ''Alkaline''" 0 86400 0 0 16000 "32/73"
      "''Alkaline''" example_workbook li_idle_battery]
    shelf_life_clamp[of example_battery 0 86400 0 0 16000 "32/73"
      "''Lithium Metal''" example_workbook li_idle_battery]
  by (simp add: idle_battery_fields li_idle_battery_fields total_daily_consumption_def
      example_battery_fields)

subsection \<open>The divisor of the runtime\<close>

lemma total_daily_consumption_pos:
  assumes "0 \<le> lc" "0 \<le> ld" "0 \<le> sc" "0 \<le> sd" "0 < rate" "0 < ec"
  shows "0 < total_daily_consumption lc ld sc sd rate ec"
proof -
  have "0 \<le> lc * (ld / 3600)" "0 \<le> sc * (sd / 3600)" using assms by simp_all
  moreover have "0 < rate * ec / 365" using assms by simp
  ultimately show ?thesis by (simp add: total_daily_consumption_def Let_def)
qed

text \<open>
  Claim C9. In the generalized variant, for non-negative capacity, currents, durations and
  temperature factor (and the self-discharge rate 0.01 of \<^verbatim>\<open>__init__\<close>), the division of
  \<^verbatim>\<open>calculate_runtime\<close> never has a zero divisor: an effective capacity of 0 returns 0 at
  the guard, and otherwise the self-discharge term makes the total daily consumption
  strictly positive. So the method returns a number.
\<close>

theorem runtime_division_is_safe:
  assumes "u_load_current b = Some lc" and "0 \<le> lc"
    and "u_load_duration_per_day b = Some ld" and "0 \<le> ld"
    and "u_sleep_current b = Some sc" and "0 \<le> sc"
    and "u_sleep_duration_per_day b = Some sd" and "0 \<le> sd"
    and "u_self_discharge_rate b = 1/100"
    and "u_effective_battery_capacity b = Some (tf * of_int cap)" and "0 \<le> tf" and "0 \<le> cap"
  shows "calculate_runtime b \<noteq> Inl ZeroDivisionError \<and>
         (\<exists>rt. calculate_runtime b = Inr rt) \<and>
         (if tf * of_int cap = 0 then calculate_runtime b = Inr 0
          else 0 < total_daily_consumption lc ld sc sd (u_self_discharge_rate b) (tf * of_int cap))"
proof (cases "tf * of_int cap = 0")
  case True
  then show ?thesis using assms by (simp add: calculate_runtime_def)
next
  case False
  have "0 \<le> tf * of_int cap" using assms by simp
  with False have "0 < tf * of_int cap" by linarith
  moreover have "0 < u_self_discharge_rate b" using assms(9) by simp
  ultimately have pos:
    "0 < total_daily_consumption lc ld sc sd (u_self_discharge_rate b) (tf * of_int cap)"
    using assms(2,4,6,8) by (intro total_daily_consumption_pos)
  then have "total_daily_consumption lc ld sc sd (u_self_discharge_rate b) (tf * of_int cap) \<noteq> 0"
    by simp
  with False pos show ?thesis using assms(1,3,5,7,10)
    by (simp add: calculate_runtime_def load_current_def load_duration_per_day_def
        sleep_current_def attribute_def operand_def and_then_def Let_def)
qed

theorem runtime_division_is_safe_witness:
  "calculate_runtime (idle_battery ''Lithium Metal'') \<noteq> Inl ZeroDivisionError
   \<and> 0 < total_daily_consumption 0 86400 0 0 (1/100) (1 * of_int 16000)
   \<and> calculate_runtime ((idle_battery ''Alkaline'')\<lparr>u_effective_battery_capacity := Some 0\<rparr>)
       = Inr 0"
  using runtime_division_is_safe[of "idle_battery ''Lithium Metal''" 0 86400 0 0 1 16000]
    runtime_division_is_safe[of
      "(idle_battery ''Alkaline'')\<lparr>u_effective_battery_capacity := Some 0\<rparr>" 0 86400 0 0 0 16000]
  by (simp add: idle_battery_fields)

subsection \<open>Rejected constructor arguments\<close>

lemma missing_attribute_details:
  assumes "u_battery_type b = None \<or> u_battery_capacity b = None \<or> u_operating_temp b = None \<or>
     u_load_current b = None \<or> u_load_duration_per_day b = None \<or> u_sleep_current b = None"
  shows "battery_details b = Inl AttributeError"
  using assms
  by (auto simp add: battery_details_def battery_type_def battery_capacity_def operating_temp_def
      load_current_def load_duration_per_day_def sleep_current_def attribute_def and_then_def
      split: option.splits)

lemma missing_attribute_limit:
  assumes "u_battery_type b = None \<or> u_battery_capacity b = None \<or> u_operating_temp b = None \<or>
     u_load_current b = None \<or> u_load_duration_per_day b = None \<or> u_sleep_current b = None"
  shows "discharge_limit b = Inl AttributeError"
  by (simp add: discharge_limit_def missing_attribute_details[OF assms] and_then_def)

lemma missing_capacity_finish:
  assumes "u_battery_capacity b = None"
  shows "fst (finish_update wb b) = Inl AttributeError"
proof -
  have lim: "discharge_limit b = Inl AttributeError"
    using assms by (intro missing_attribute_limit) simp
  show ?thesis
    using assms
    by (auto simp add: finish_update_def attempt_def calculate_temperature_factor_def
        operating_temp_def battery_type_def attribute_def and_then_def Let_def lim
        effective_capacity_def battery_capacity_def
        split: sum.splits option.splits if_splits)
qed


lemma missing_temp_finish:
  assumes "u_operating_temp b = None"
  shows "fst (finish_update wb b) = Inl AttributeError"
  using assms
  by (simp add: finish_update_def attempt_def calculate_temperature_factor_def
      operating_temp_def attribute_def and_then_def)

lemma missing_early_update:
  assumes "u_battery_type b = None \<or> u_load_current b = None \<or>
     u_load_duration_per_day b = None \<or> u_sleep_current b = None"
  shows "fst (update_battery_properties wb b) = Inl AttributeError"
  using assms
  by (auto simp add: update_battery_properties_def attempt_def Let_def battery_type_def
      load_duration_per_day_def load_current_def sleep_current_def attribute_def
      average_current_def and_then_def
      split: option.splits)

lemma missing_attribute_update:
  assumes "u_battery_type b = None \<or> u_battery_capacity b = None \<or> u_operating_temp b = None \<or>
     u_load_current b = None \<or> u_load_duration_per_day b = None \<or> u_sleep_current b = None"
  shows "fst (update_battery_properties wb b) = Inl AttributeError"
proof (cases "u_battery_type b = None \<or> u_load_current b = None \<or>
     u_load_duration_per_day b = None \<or> u_sleep_current b = None")
  case True
  then show ?thesis by (rule missing_early_update)
next
  case False
  then obtain ty lc ld sc where f: "u_battery_type b = Some ty" "u_load_current b = Some lc"
    "u_load_duration_per_day b = Some ld" "u_sleep_current b = Some sc" by auto
  from f assms have "u_battery_capacity b = None \<or> u_operating_temp b = None" by auto
  then show ?thesis
    unfolding update_battery_properties_split[OF f]
    using missing_capacity_finish[of "discharge_state b" wb]
      missing_temp_finish[of "discharge_state b" wb]
    by (auto simp add: discharge_state_fields[OF f])
qed


lemmas constraint_defs =
  battery_type_constraint_def battery_capacity_constraint_def operating_temp_constraint_def
  current_constraint_def load_duration_constraint_def li_battery_capacity_constraint_def

lemma setter_frame:
  "u_battery_capacity (set_battery_type v b) = u_battery_capacity b"
  "u_operating_temp (set_battery_type v b) = u_operating_temp b"
  "u_load_current (set_battery_type v b) = u_load_current b"
  "u_load_duration_per_day (set_battery_type v b) = u_load_duration_per_day b"
  "u_sleep_current (set_battery_type v b) = u_sleep_current b"
  "u_battery_type (set_battery_capacity v b) = u_battery_type b"
  "u_operating_temp (set_battery_capacity v b) = u_operating_temp b"
  "u_load_current (set_battery_capacity v b) = u_load_current b"
  "u_load_duration_per_day (set_battery_capacity v b) = u_load_duration_per_day b"
  "u_sleep_current (set_battery_capacity v b) = u_sleep_current b"
  "u_battery_type (set_operating_temp v b) = u_battery_type b"
  "u_battery_capacity (set_operating_temp v b) = u_battery_capacity b"
  "u_load_current (set_operating_temp v b) = u_load_current b"
  "u_load_duration_per_day (set_operating_temp v b) = u_load_duration_per_day b"
  "u_sleep_current (set_operating_temp v b) = u_sleep_current b"
  "u_battery_type (set_load_current v b) = u_battery_type b"
  "u_battery_capacity (set_load_current v b) = u_battery_capacity b"
  "u_operating_temp (set_load_current v b) = u_operating_temp b"
  "u_load_duration_per_day (set_load_current v b) = u_load_duration_per_day b"
  "u_sleep_current (set_load_current v b) = u_sleep_current b"
  "u_battery_type (set_load_duration_per_day v b) = u_battery_type b"
  "u_battery_capacity (set_load_duration_per_day v b) = u_battery_capacity b"
  "u_operating_temp (set_load_duration_per_day v b) = u_operating_temp b"
  "u_load_current (set_load_duration_per_day v b) = u_load_current b"
  "u_sleep_current (set_load_duration_per_day v b) = u_sleep_current b"
  "u_battery_type (set_sleep_current v b) = u_battery_type b"
  "u_battery_capacity (set_sleep_current v b) = u_battery_capacity b"
  "u_operating_temp (set_sleep_current v b) = u_operating_temp b"
  "u_load_current (set_sleep_current v b) = u_load_current b"
  "u_load_duration_per_day (set_sleep_current v b) = u_load_duration_per_day b"
  by (simp_all add: setter_defs)

lemma li_setter_frame:
  "li_u_operating_temp (li_set_battery_capacity v c) = li_u_operating_temp c"
  "li_u_load_current (li_set_battery_capacity v c) = li_u_load_current c"
  "li_u_load_duration_per_day (li_set_battery_capacity v c) = li_u_load_duration_per_day c"
  "li_u_sleep_current (li_set_battery_capacity v c) = li_u_sleep_current c"
  "li_u_battery_capacity (li_set_operating_temp v c) = li_u_battery_capacity c"
  "li_u_load_current (li_set_operating_temp v c) = li_u_load_current c"
  "li_u_load_duration_per_day (li_set_operating_temp v c) = li_u_load_duration_per_day c"
  "li_u_sleep_current (li_set_operating_temp v c) = li_u_sleep_current c"
  "li_u_battery_capacity (li_set_load_current v c) = li_u_battery_capacity c"
  "li_u_operating_temp (li_set_load_current v c) = li_u_operating_temp c"
  "li_u_load_duration_per_day (li_set_load_current v c) = li_u_load_duration_per_day c"
  "li_u_sleep_current (li_set_load_current v c) = li_u_sleep_current c"
  "li_u_battery_capacity (li_set_load_duration_per_day v c) = li_u_battery_capacity c"
  "li_u_operating_temp (li_set_load_duration_per_day v c) = li_u_operating_temp c"
  "li_u_load_current (li_set_load_duration_per_day v c) = li_u_load_current c"
  "li_u_sleep_current (li_set_load_duration_per_day v c) = li_u_sleep_current c"
  "li_u_battery_capacity (li_set_sleep_current v c) = li_u_battery_capacity c"
  "li_u_operating_temp (li_set_sleep_current v c) = li_u_operating_temp c"
  "li_u_load_current (li_set_sleep_current v c) = li_u_load_current c"
  "li_u_load_duration_per_day (li_set_sleep_current v c) = li_u_load_duration_per_day c"
  by (simp_all add: li_setter_defs)

lemma setter_rejects:
  "\<not> battery_type_constraint v \<Longrightarrow> set_battery_type v b = b"
  "\<not> battery_capacity_constraint v \<Longrightarrow> set_battery_capacity v b = b"
  "\<not> operating_temp_constraint v \<Longrightarrow> set_operating_temp v b = b"
  "\<not> current_constraint v \<Longrightarrow> set_load_current v b = b"
  "\<not> load_duration_constraint v \<Longrightarrow> set_load_duration_per_day v b = b"
  "\<not> current_constraint v \<Longrightarrow> set_sleep_current v b = b"
  "\<not> li_battery_capacity_constraint v \<Longrightarrow> li_set_battery_capacity v c = c"
  "\<not> operating_temp_constraint v \<Longrightarrow> li_set_operating_temp v c = c"
  "\<not> current_constraint v \<Longrightarrow> li_set_load_current v c = c"
  "\<not> load_duration_constraint v \<Longrightarrow> li_set_load_duration_per_day v c = c"
  "\<not> current_constraint v \<Longrightarrow> li_set_sleep_current v c = c"
  by (auto simp add: setter_defs li_setter_defs constraint_defs)

lemma init_rejected:
  "\<not> battery_type_constraint ty \<Longrightarrow> u_battery_type (init ty cap temp lc ld sc) = None"
  "\<not> battery_capacity_constraint cap \<Longrightarrow> u_battery_capacity (init ty cap temp lc ld sc) = None"
  "\<not> operating_temp_constraint temp \<Longrightarrow> u_operating_temp (init ty cap temp lc ld sc) = None"
  "\<not> current_constraint lc \<Longrightarrow> u_load_current (init ty cap temp lc ld sc) = None"
  "\<not> load_duration_constraint ld \<Longrightarrow> u_load_duration_per_day (init ty cap temp lc ld sc) = None"
  "\<not> current_constraint sc \<Longrightarrow> u_sleep_current (init ty cap temp lc ld sc) = None"
  by (simp_all add: init_def setter_frame setter_rejects fresh_def)

lemma li_init_rejected:
  "\<not> li_battery_capacity_constraint cap \<Longrightarrow> li_u_battery_capacity (li_init cap temp lc ld sc) = None"
  "\<not> operating_temp_constraint temp \<Longrightarrow> li_u_operating_temp (li_init cap temp lc ld sc) = None"
  "\<not> current_constraint lc \<Longrightarrow> li_u_load_current (li_init cap temp lc ld sc) = None"
  "\<not> load_duration_constraint ld \<Longrightarrow> li_u_load_duration_per_day (li_init cap temp lc ld sc) = None"
  "\<not> current_constraint sc \<Longrightarrow> li_u_sleep_current (li_init cap temp lc ld sc) = None"
  by (simp_all add: li_init_def li_setter_frame setter_rejects li_fresh_def)

lemma li_missing_attribute_details:
  assumes "li_u_battery_capacity b = None \<or> li_u_operating_temp b = None \<or>
     li_u_load_current b = None \<or> li_u_load_duration_per_day b = None \<or> li_u_sleep_current b = None"
  shows "li_battery_details b = Inl AttributeError"
  using assms
  by (auto simp add: li_battery_details_def li_battery_capacity_def li_operating_temp_def
      li_load_current_def li_load_duration_per_day_def li_sleep_current_def attribute_def
      and_then_def split: option.splits)

lemma li_missing_attribute_update:
  assumes "li_u_battery_capacity b = None \<or> li_u_operating_temp b = None \<or>
     li_u_load_duration_per_day b = None"
  shows "fst (li_update_battery_properties df b) = Inl AttributeError"
  using assms
  by (auto simp add: li_update_battery_properties_def li_attempt_def Let_def
      li_load_duration_per_day_def li_calculate_temperature_factor_def li_operating_temp_def
      li_effective_capacity_def li_battery_capacity_def attribute_def and_then_def
      split: option.splits sum.splits)

lemma li_missing_current_update:
  assumes "li_u_load_current b = None \<or> li_u_sleep_current b = None"
  shows "fst (li_update_battery_properties df b) =
     (if li_u_load_duration_per_day b \<noteq> None \<and> li_u_battery_capacity b \<noteq> None \<and>
         li_calculate_temperature_factor df b = Inr None
      then Inl TypeError else Inl AttributeError)"
  using assms
  by (auto simp add: li_update_battery_properties_def li_attempt_def Let_def
      li_load_duration_per_day_def li_calculate_temperature_factor_def li_operating_temp_def
      li_effective_capacity_def li_battery_capacity_def attribute_def and_then_def operand_def
      li_calculate_runtime_def li_load_current_def li_sleep_current_def
      split: option.splits sum.splits if_splits)

text \<open>
  Claim C10. When a constructor argument violates its setter's constraint, the backing
  attribute is never created: the property, \<^verbatim>\<open>battery_details\<close> and
  \<^verbatim>\<open>update_battery_properties\<close> raise \<^verbatim>\<open>AttributeError\<close>; nothing returns a default or
  the rejected value. In the lithium-only variant the two currents are read last, by
  \<^verbatim>\<open>calculate_runtime\<close>: there the update never returns, and it raises \<^verbatim>\<open>AttributeError\<close>
  unless the temperature-factor lookup found no bracketing rows, in which case the
  multiplication by \<^verbatim>\<open>None\<close> raises before the current is read.
\<close>

theorem rejected_constructor_argument:
  "(b = init ty cap temp lc ld sc \<longrightarrow>
    (\<not> battery_type_constraint ty \<longrightarrow>
       u_battery_type b = None \<and> battery_type b = Inl AttributeError \<and>
       battery_details b = Inl AttributeError \<and>
       fst (update_battery_properties wb b) = Inl AttributeError) \<and>
    (\<not> battery_capacity_constraint cap \<longrightarrow>
       u_battery_capacity b = None \<and> battery_capacity b = Inl AttributeError \<and>
       battery_details b = Inl AttributeError \<and>
       fst (update_battery_properties wb b) = Inl AttributeError) \<and>
    (\<not> operating_temp_constraint temp \<longrightarrow>
       u_operating_temp b = None \<and> operating_temp b = Inl AttributeError \<and>
       battery_details b = Inl AttributeError \<and>
       fst (update_battery_properties wb b) = Inl AttributeError) \<and>
    (\<not> current_constraint lc \<longrightarrow>
       u_load_current b = None \<and> load_current b = Inl AttributeError \<and>
       battery_details b = Inl AttributeError \<and>
       fst (update_battery_properties wb b) = Inl AttributeError) \<and>
    (\<not> load_duration_constraint ld \<longrightarrow>
       u_load_duration_per_day b = None \<and> load_duration_per_day b = Inl AttributeError \<and>
       battery_details b = Inl AttributeError \<and>
       fst (update_battery_properties wb b) = Inl AttributeError) \<and>
    (\<not> current_constraint sc \<longrightarrow>
       u_sleep_current b = None \<and> sleep_current b = Inl AttributeError \<and>
       battery_details b = Inl AttributeError \<and>
       fst (update_battery_properties wb b) = Inl AttributeError))
   \<and> (c = li_init cap temp lc ld sc \<longrightarrow>
    (\<not> li_battery_capacity_constraint cap \<longrightarrow>
       li_u_battery_capacity c = None \<and> li_battery_capacity c = Inl AttributeError \<and>
       li_battery_details c = Inl AttributeError \<and>
       fst (li_update_battery_properties df c) = Inl AttributeError) \<and>
    (\<not> operating_temp_constraint temp \<longrightarrow>
       li_u_operating_temp c = None \<and> li_operating_temp c = Inl AttributeError \<and>
       li_battery_details c = Inl AttributeError \<and>
       fst (li_update_battery_properties df c) = Inl AttributeError) \<and>
    (\<not> load_duration_constraint ld \<longrightarrow>
       li_u_load_duration_per_day c = None \<and> li_load_duration_per_day c = Inl AttributeError \<and>
       li_battery_details c = Inl AttributeError \<and>
       fst (li_update_battery_properties df c) = Inl AttributeError) \<and>
    (\<not> current_constraint lc \<longrightarrow>
       li_u_load_current c = None \<and> li_load_current c = Inl AttributeError \<and>
       li_battery_details c = Inl AttributeError \<and>
       (\<forall>r. fst (li_update_battery_properties df c) \<noteq> Inr r) \<and>
       (li_calculate_temperature_factor df c \<noteq> Inr None \<longrightarrow>
          fst (li_update_battery_properties df c) = Inl AttributeError)) \<and>
    (\<not> current_constraint sc \<longrightarrow>
       li_u_sleep_current c = None \<and> li_sleep_current c = Inl AttributeError \<and>
       li_battery_details c = Inl AttributeError \<and>
       (\<forall>r. fst (li_update_battery_properties df c) \<noteq> Inr r) \<and>
       (li_calculate_temperature_factor df c \<noteq> Inr None \<longrightarrow>
          fst (li_update_battery_properties df c) = Inl AttributeError)))"
  apply (intro conjI impI allI)
  apply (simp_all add: init_rejected li_init_rejected missing_attribute_details
      missing_attribute_update li_missing_attribute_details li_missing_attribute_update
      li_missing_current_update battery_type_def battery_capacity_def operating_temp_def
      load_current_def load_duration_per_day_def sleep_current_def li_battery_capacity_def
      li_operating_temp_def li_load_current_def li_load_duration_per_day_def
      li_sleep_current_def attribute_def)
  done

theorem rejected_constructor_argument_witness:
  "battery_capacity (init (PStr ''Alkaline'') (PInt (- 1)) (PInt 20) (PInt 90) (PInt 240) (PInt 0))
     = Inl AttributeError
   \<and> battery_details (init (PStr ''Alkaline'') (PFloat (3/2)) (PInt 20) (PInt 90) (PInt 240) (PInt 0))
     = Inl AttributeError
   \<and> fst (update_battery_properties example_workbook
        (init (PStr ''Alkaline'') (PInt (- 1)) (PInt 20) (PInt 90) (PInt 240) (PInt 0)))
     = Inl AttributeError
   \<and> li_battery_capacity (li_init (PInt 0) (PInt 20) (PInt 90) (PInt 240) (PInt 0))
     = Inl AttributeError
   \<and> fst (li_update_battery_properties li_example_sheet
        (li_init (PInt 0) (PInt 20) (PInt 90) (PInt 240) (PInt 0)))
     = Inl AttributeError"
  using rejected_constructor_argument[of
      "init (PStr ''Alkaline'') (PInt (- 1)) (PInt 20) (PInt 90) (PInt 240) (PInt 0)"
      "PStr ''Alkaline''" "PInt (- 1)" "PInt 20" "PInt 90" "PInt 240" "PInt 0" example_workbook
      "li_init (PInt (- 1)) (PInt 20) (PInt 90) (PInt 240) (PInt 0)" li_example_sheet]
    rejected_constructor_argument[of
      "init (PStr ''Alkaline'') (PFloat (3/2)) (PInt 20) (PInt 90) (PInt 240) (PInt 0)"
      "PStr ''Alkaline''" "PFloat (3/2)" "PInt 20" "PInt 90" "PInt 240" "PInt 0" example_workbook
      "li_init (PFloat (3/2)) (PInt 20) (PInt 90) (PInt 240) (PInt 0)" li_example_sheet]
    rejected_constructor_argument[of
      "init (PStr ''Alkaline'') (PInt 0) (PInt 20) (PInt 90) (PInt 240) (PInt 0)"
      "PStr ''Alkaline''" "PInt 0" "PInt 20" "PInt 90" "PInt 240" "PInt 0" example_workbook
      "li_init (PInt 0) (PInt 20) (PInt 90) (PInt 240) (PInt 0)" li_example_sheet]
  by (simp add: constraint_defs)

subsection \<open>Temperatures outside the operating range\<close>

lemma li_cold_idle_battery_fields:
  "li_u_battery_capacity li_cold_idle_battery = Some 16000"
  "li_u_operating_temp li_cold_idle_battery = Some (- 50)"
  "li_u_load_current li_cold_idle_battery = Some 0"
  "li_u_load_duration_per_day li_cold_idle_battery = Some 86400"
  "li_u_sleep_current li_cold_idle_battery = Some 0"
  "li_u_self_discharge_rate li_cold_idle_battery = 1/100"
  "li_u_max_shelf_life li_cold_idle_battery = 25"
  "li_u_min_operating_temp li_cold_idle_battery = - 40"
  "li_u_max_operating_temp li_cold_idle_battery = 60"
  "li_u_battery_runtime li_cold_idle_battery = None"
  by (simp_all add: li_cold_idle_battery_def li_init_def li_fresh_def li_setter_defs)

text \<open>
  Claim C1, at a failing input. The claim holds in the generalized variant (lemma
  \<open>out_of_range_runtime_zero\<close>, below) and in the lithium-only variant while the daily
  consumption is not 0 (lemma \<open>li_out_of_range_runtime_zero\<close>). The lithium-only
  \<^verbatim>\<open>calculate_runtime\<close> lacks the guard of the generalized one: for the accepted
  arguments \<^verbatim>\<open>Battery(16000, -50, 0, 86400, 0)\<close> the temperature factor is 0, and the
  division 0.0 / 0.0 raises \<^verbatim>\<open>ZeroDivisionError\<close>, whatever the sheet holds, so the
  runtime stays \<^verbatim>\<open>None\<close> instead of becoming 0.
\<close>

theorem li_out_of_range_idle_raises:
  "fst (li_update_battery_properties df li_cold_idle_battery) = Inl ZeroDivisionError
   \<and> li_u_temperature_factor (snd (li_update_battery_properties df li_cold_idle_battery)) = Some 0
   \<and> li_u_battery_runtime (snd (li_update_battery_properties df li_cold_idle_battery)) = None"
  by (simp add: li_update_battery_properties_def li_attempt_def Let_def
      li_load_duration_per_day_def li_calculate_temperature_factor_def li_operating_temp_def
      li_effective_capacity_def li_battery_capacity_def attribute_def and_then_def operand_def
      li_calculate_runtime_def li_load_current_def li_sleep_current_def
      total_daily_consumption_def li_cold_idle_battery_fields)

lemma out_of_range_runtime_zero:
  assumes "u_battery_type b = Some ty" and "u_load_current b = Some lc"
    and "u_load_duration_per_day b = Some ld" and "u_sleep_current b = Some sc"
    and "u_battery_capacity b = Some cap" and "u_operating_temp b = Some t"
    and "t < of_int (if ty = ''Alkaline'' then - 18 else - 40) \<or>
         t > of_int (if ty = ''Alkaline'' then 55 else 60)"
  shows "fst (update_battery_properties wb b) = Inr 0"
    and "u_temperature_factor (snd (update_battery_properties wb b)) = Some 0"
    and "u_battery_runtime (snd (update_battery_properties wb b)) = Some 0"
  using assms(5-)
  unfolding update_battery_properties_split[OF assms(1-4)]
  by (auto simp add: finish_update_def attempt_def Let_def calculate_temperature_factor_def
      operating_temp_def attribute_def and_then_def discharge_state_fields[OF assms(1-4)]
      effective_capacity_def battery_capacity_def operand_def calculate_runtime_def)

lemma li_out_of_range_runtime_zero:
  assumes "li_u_load_current b = Some lc"
    and "li_u_load_duration_per_day b = Some ld" and "li_u_sleep_current b = Some sc"
    and "li_u_battery_capacity b = Some cap" and "li_u_operating_temp b = Some t"
    and "t < of_int (li_u_min_operating_temp b) \<or> t > of_int (li_u_max_operating_temp b)"
    and "total_daily_consumption lc ld sc (86400 - ld) (li_u_self_discharge_rate b) 0 \<noteq> 0"
    and "0 < li_u_max_shelf_life b"
  shows "fst (li_update_battery_properties df b) = Inr 0"
    and "li_u_temperature_factor (snd (li_update_battery_properties df b)) = Some 0"
    and "li_u_battery_runtime (snd (li_update_battery_properties df b)) = Some 0"
  using assms
  by (auto simp add: li_update_battery_properties_def li_attempt_def Let_def
      li_load_duration_per_day_def li_calculate_temperature_factor_def li_operating_temp_def
      li_effective_capacity_def li_battery_capacity_def attribute_def and_then_def operand_def
      li_calculate_runtime_def li_load_current_def li_sleep_current_def)

subsection \<open>The result of the update\<close>
















subsection \<open>The temperature factor at the maximum operating temperature\<close>

lemma discharge_limit_of_mode:
  assumes "u_battery_type b = Some ty" and "u_battery_capacity b = Some cap"
    and "u_operating_temp b = Some t" and "u_load_current b = Some lc"
    and "u_load_duration_per_day b = Some ld" and "u_sleep_current b = Some sc"
    and "u_current_discharge_mode b = Some m"
    and "m = ''Low'' \<or> m = ''Medium'' \<or> m = ''High''"
  shows "discharge_limit b =
     Inr (DInt (if m = ''Low'' then u_low_current_discharge b
                else if m = ''Medium'' then u_medium_current_discharge b
                else u_high_current_discharge b))"
  using assms
  by (auto simp add: discharge_limit_def battery_details_def getitem_def and_then_def
      battery_type_def battery_capacity_def operating_temp_def load_current_def
      load_duration_per_day_def sleep_current_def attribute_def)

lemma accepted_discharge_limit:
  assumes "accepted b"
  shows "\<exists>l. discharge_limit (discharge_state b) = Inr (DInt l) \<and> (l = 25 \<or> l = 250 \<or> l = 1000)"
proof -
  from assms obtain ty cap t lc ld sc where
    f: "u_battery_type b = Some ty" "u_load_current b = Some lc"
       "u_load_duration_per_day b = Some ld" "u_sleep_current b = Some sc"
    and c: "u_battery_capacity b = Some cap" "u_operating_temp b = Some t"
    and k: "u_low_current_discharge b = 25" "u_medium_current_discharge b = 250"
       "u_high_current_discharge b = 1000"
    unfolding accepted_def by (auto elim!: holdsE)
  obtain m where m: "u_current_discharge_mode (discharge_state b) = Some m"
    and mm: "m = ''Low'' \<or> m = ''Medium'' \<or> m = ''High''"
    using discharge_state_mode[OF f] by (auto simp add: Let_def)
  have "discharge_limit (discharge_state b) =
     Inr (DInt (if m = ''Low'' then u_low_current_discharge (discharge_state b)
                else if m = ''Medium'' then u_medium_current_discharge (discharge_state b)
                else u_high_current_discharge (discharge_state b)))"
    using c m mm
    by (intro discharge_limit_of_mode[where ty = ty and cap = cap and t = t and lc = lc
          and ld = ld and sc = sc])
       (simp_all add: discharge_state_fields[OF f])
  then show ?thesis using k by (auto simp add: discharge_state_fields[OF f])
qed

lemma temperature_factor_at_max:
  assumes "accepted b" and "u_operating_temp b = Some t"
    and "t = of_int (u_max_operating_temp (discharge_state b))"
    and "curve_of wb (discharge_state b) = (T0, f0) # rest"
  shows "calculate_temperature_factor wb (discharge_state b) = Inr (Some f0)"
proof -
  from assms(1) obtain ty lc ld sc where
    f: "u_battery_type b = Some ty" "u_load_current b = Some lc"
       "u_load_duration_per_day b = Some ld" "u_sleep_current b = Some sc"
    unfolding accepted_def by (auto elim!: holdsE)
  obtain l where l: "discharge_limit (discharge_state b) = Inr (DInt l)"
    using accepted_discharge_limit[OF assms(1)] by blast
  have le: "(if ty = ''Alkaline'' then - 18 else - 40 :: int) \<le> (if ty = ''Alkaline'' then 55 else 60)"
    by simp
  show ?thesis
    using assms(2,3,4) l le
    by (auto simp add: calculate_temperature_factor_def curve_of_def operating_temp_def
        battery_type_def attribute_def and_then_def Let_def
        discharge_state_fields[OF f])
qed

lemma strictly_descending_head:
  assumes "sorted_wrt (>) (map fst ((T0 :: real, f0 :: real) # rest))"
    and "(t, f) \<in> set ((T0, f0) # rest)" and "T0 \<le> t"
  shows "f = f0"
proof (cases "(t, f) = (T0, f0)")
  case True
  then show ?thesis by simp
next
  case False
  with assms(2) have m: "(t, f) \<in> set rest" by auto
  from assms(1) have "\<forall>x\<in>set rest. fst x < T0" by simp
  with m have "fst (t, f) < T0" by blast
  with assms(3) show ?thesis by simp
qed


lemma hot_battery_fields:
  "u_battery_type hot_battery = Some ''Alkaline''"
  "u_battery_capacity hot_battery = Some 2000"
  "u_operating_temp hot_battery = Some 55"
  "u_load_current hot_battery = Some 10"
  "u_load_duration_per_day hot_battery = Some 86400"
  "u_sleep_current hot_battery = Some 0"
  "u_self_discharge_rate hot_battery = 1/100"
  "u_low_current_discharge hot_battery = 25"
  "u_medium_current_discharge hot_battery = 250"
  "u_high_current_discharge hot_battery = 1000"
  by (simp_all add: hot_battery_def init_def fresh_def setter_defs)

lemma li_hot_battery_fields:
  "li_u_battery_capacity li_hot_battery = Some 16000"
  "li_u_operating_temp li_hot_battery = Some 60"
  "li_u_load_current li_hot_battery = Some 90"
  "li_u_load_duration_per_day li_hot_battery = Some 240"
  "li_u_sleep_current li_hot_battery = Some 0"
  "li_u_self_discharge_rate li_hot_battery = 1/100"
  "li_u_max_shelf_life li_hot_battery = 25"
  "li_u_min_operating_temp li_hot_battery = - 40"
  "li_u_max_operating_temp li_hot_battery = 60"
  by (simp_all add: li_hot_battery_def li_init_def li_fresh_def li_setter_defs)

lemma hot_battery_accepted: "accepted hot_battery"
  by (simp add: accepted_def hot_battery_fields)

lemma li_hot_battery_accepted: "li_accepted li_hot_battery"
  by (simp add: li_accepted_def li_hot_battery_fields)

lemma hot_mode:
  "u_current_discharge_mode (discharge_state hot_battery) = Some ''Low''"
  by (simp add: discharge_state_mode[OF hot_battery_fields(1,4,5,6)]
      hot_battery_fields py_round_def round_half_even_def Let_def)

lemma hot_curve:
  "curve_of example_workbook (discharge_state hot_battery) = [(55, 1), (- 18, 1/2)]"
  by (simp add: curve_of_def discharge_limit_def battery_details_def getitem_def and_then_def
      battery_type_def battery_capacity_def operating_temp_def load_current_def
      load_duration_per_day_def sleep_current_def attribute_def
      discharge_state_fields[OF hot_battery_fields(1,4,5,6)]
      hot_mode hot_battery_fields select_rows_def example_workbook_def)

text \<open>
  Claim C7. When the operating temperature equals the maximum operating temperature of the
  chemistry, the generalized \<^verbatim>\<open>calculate_temperature_factor\<close> returns the factor of the
  first row of the curve it selected. For a curve as the interface describes it (sorted
  by strictly descending temperature, with no sample above the maximum operating
  temperature) that factor is the curve's sample value at exactly that temperature. The
  lithium-only variant returns 1 at its maximum of 60 through the branch for temperatures
  of at least -10.
\<close>

theorem temperature_factor_at_maximum:
  "(accepted b \<and> u_operating_temp b = Some t \<and>
    t = of_int (u_max_operating_temp (discharge_state b)) \<and>
    curve_of wb (discharge_state b) = (T0, f0) # rest \<longrightarrow>
      calculate_temperature_factor wb (discharge_state b) = Inr (Some f0))
   \<and> (accepted b \<and> u_operating_temp b = Some t \<and>
    t = of_int (u_max_operating_temp (discharge_state b)) \<and>
    curve_of wb (discharge_state b) = (T0, f0) # rest \<and>
    sorted_wrt (>) (map fst (curve_of wb (discharge_state b))) \<and> T0 \<le> t \<and>
    (t, f) \<in> set (curve_of wb (discharge_state b)) \<longrightarrow>
      calculate_temperature_factor wb (discharge_state b) = Inr (Some f))
   \<and> (li_accepted c \<and> li_u_operating_temp c = Some 60 \<longrightarrow>
      li_calculate_temperature_factor df c = Inr (Some 1))"
proof (intro conjI impI)
  assume "accepted b \<and> u_operating_temp b = Some t \<and>
    t = of_int (u_max_operating_temp (discharge_state b)) \<and>
    curve_of wb (discharge_state b) = (T0, f0) # rest"
  then show "calculate_temperature_factor wb (discharge_state b) = Inr (Some f0)"
    using temperature_factor_at_max[of b t wb T0 f0 rest] by blast
next
  assume h: "accepted b \<and> u_operating_temp b = Some t \<and>
    t = of_int (u_max_operating_temp (discharge_state b)) \<and>
    curve_of wb (discharge_state b) = (T0, f0) # rest \<and>
    sorted_wrt (>) (map fst (curve_of wb (discharge_state b))) \<and> T0 \<le> t \<and>
    (t, f) \<in> set (curve_of wb (discharge_state b))"
  then have "sorted_wrt (>) (map fst ((T0, f0) # rest))"
    and "(t, f) \<in> set ((T0, f0) # rest)" and "T0 \<le> t"
    by metis+
  then have "f = f0" by (rule strictly_descending_head)
  moreover from h have "calculate_temperature_factor wb (discharge_state b) = Inr (Some f0)"
    using temperature_factor_at_max[of b t wb T0 f0 rest] by blast
  ultimately show "calculate_temperature_factor wb (discharge_state b) = Inr (Some f)"
    by simp
next
  assume "li_accepted c \<and> li_u_operating_temp c = Some 60"
  then show "li_calculate_temperature_factor df c = Inr (Some 1)"
    by (simp add: li_accepted_def li_calculate_temperature_factor_def li_operating_temp_def
        attribute_def and_then_def)
qed

theorem temperature_factor_at_maximum_witness:
  "calculate_temperature_factor example_workbook (discharge_state hot_battery) = Inr (Some 1)
   \<and> curve_of example_workbook (discharge_state hot_battery) = [(55, 1), (- 18, 1/2)]
   \<and> li_calculate_temperature_factor li_example_sheet li_hot_battery = Inr (Some 1)"
  using temperature_factor_at_maximum[of hot_battery 55 example_workbook 55 1
      "[(- 18, 1/2)]" 1 li_hot_battery li_example_sheet]
  by (simp add: hot_battery_accepted li_hot_battery_accepted hot_curve hot_battery_fields
      li_hot_battery_fields discharge_state_fields[OF hot_battery_fields(1,4,5,6)])

subsection \<open>Monotonicity of the runtime in the currents\<close>




























end
